theory Spec2Isabelle
  imports Main
begin

section \<open>JavaScript strings, arrays and values\<close>

text \<open>
  Strings are character lists. The four patterns of the safety check and the pattern of
  the weather tool are ASCII, so an occurrence of one of them is the same occurrence
  whatever encoding carries the other characters.
\<close>

fun startsWith :: "string \<Rightarrow> string \<Rightarrow> bool" where
  "startsWith s [] = True"
| "startsWith [] (p # ps) = False"
| "startsWith (c # cs) (p # ps) = (c = p \<and> startsWith cs ps)"

text \<open>\<^verbatim>\<open>String.prototype.includes\<close>: the pattern occurs at some position.\<close>

fun includes_str :: "string \<Rightarrow> string \<Rightarrow> bool" where
  "includes_str [] pat = (pat = [])"
| "includes_str (c # cs) pat = (startsWith (c # cs) pat \<or> includes_str cs pat)"

definition newline :: string where
  "newline = [CHR 0x0A]"

text \<open>\<^verbatim>\<open>Array.prototype.join\<close> on an array of strings.\<close>

fun join :: "string \<Rightarrow> string list \<Rightarrow> string" where
  "join sep [] = []"
| "join sep [x] = x"
| "join sep (x # y # ys) = x @ sep @ join sep (y # ys)"

text \<open>
  The values the executor handles: \<open>Prim s\<close> is a value other than
  \<^verbatim>\<open>undefined\<close> and \<^verbatim>\<open>null\<close> that has no
  \<^verbatim>\<open>message\<close> property (a string, a number, a boolean), given by its string
  conversion \<open>s\<close>; \<open>ErrorObj name msg\<close> is an error object with its
  \<^verbatim>\<open>name\<close> and \<^verbatim>\<open>message\<close>, both strings. The last three are
  the other objects a code can throw, told apart by what their
  \<^verbatim>\<open>message\<close> property does: \<open>GetterThrows t\<close> has a getter that throws
  \<open>t\<close> (\<^verbatim>\<open>{get message() { throw 0 }}\<close>); \<open>HasMessage m\<close> holds the
  value \<open>m\<close>; \<open>HasUnjoinableMessage t\<close> holds a value that has no string
  conversion, so that converting it throws \<open>t\<close> (\<^verbatim>\<open>{message: Symbol()}\<close>,
  where \<open>t\<close> is a TypeError).
\<close>

datatype js_value =
    Undefined
  | Null
  | Prim string
  | ErrorObj string string
  | GetterThrows js_value
  | HasMessage js_value
  | HasUnjoinableMessage js_value

text \<open>\<^verbatim>\<open>Error.prototype.toString\<close>.\<close>

definition error_toString :: "string \<Rightarrow> string \<Rightarrow> string" where
  "error_toString name msg =
     (if name = [] then msg else if msg = [] then name else name @ '': '' @ msg)"

text \<open>
  The conversion \<^verbatim>\<open>join\<close> applies to each element: \<^verbatim>\<open>undefined\<close>
  and \<^verbatim>\<open>null\<close> become the empty string.
\<close>

fun join_element :: "js_value \<Rightarrow> string" where
  "join_element Undefined = []"
| "join_element Null = []"
| "join_element (Prim s) = s"
| "join_element (ErrorObj name msg) = error_toString name msg"
| "join_element (GetterThrows t) = ''[object Object]''"
| "join_element (HasMessage m) = ''[object Object]''"
| "join_element (HasUnjoinableMessage t) = ''[object Object]''"

definition array_join :: "string \<Rightarrow> js_value list \<Rightarrow> string" where
  "array_join sep vs = join sep (map join_element vs)"

text \<open>
  Reading the property \<^verbatim>\<open>message\<close> of a value: the read throws, or it
  gives a value that has a string conversion, or it gives one that has none (and then
  converting it throws the value given). On \<^verbatim>\<open>null\<close> and
  \<^verbatim>\<open>undefined\<close> the read itself throws a TypeError (the texts are those of
  V8); a primitive has no such property.
\<close>

datatype message_read = ReadThrows js_value | Reads js_value | ReadsUnjoinable js_value

fun get_message :: "js_value \<Rightarrow> message_read" where
  "get_message Null =
     ReadThrows (ErrorObj ''TypeError'' ''Cannot read properties of null (reading 'message')'')"
| "get_message Undefined =
     ReadThrows
       (ErrorObj ''TypeError'' ''Cannot read properties of undefined (reading 'message')'')"
| "get_message (Prim s) = Reads Undefined"
| "get_message (ErrorObj name msg) = Reads (Prim msg)"
| "get_message (GetterThrows t) = ReadThrows t"
| "get_message (HasMessage m) = Reads m"
| "get_message (HasUnjoinableMessage t) = ReadsUnjoinable t"

section \<open>The console and the evaluated code\<close>

text \<open>
  A function value stored in \<^verbatim>\<open>console.log\<close> or \<^verbatim>\<open>console.error\<close>:
  a function of the host (the native one, say), or one of the two arrow functions that
  invocation number \<open>k\<close> of \<^verbatim>\<open>evalAndCaptureOutput\<close> creates. Every invocation
  creates two fresh function objects; the number tells them apart, and the host counts
  the invocations made so far.
\<close>

datatype channel = Out | Err

datatype fn = Host string | Capture nat channel

record host =
  console_log :: fn
  console_error :: fn
  invocations :: nat

text \<open>The local variables of one invocation (lines 54 to 57).\<close>

record capture =
  oldLog :: fn
  oldError :: fn
  output_buf :: "string list"
  errorOutput :: "js_value list"

text \<open>
  \<^verbatim>\<open>eval(code)\<close> is the engine's; the executor sees of it the calls the code makes
  through \<^verbatim>\<open>console\<close>, the assignments it makes to the two properties, and how
  \<^verbatim>\<open>await eval(code)\<close> ends: it completes, it throws a value (or the promise
  rejects with it), or it never ends (a loop, a promise that never settles). The effects
  of a code that never ends are those it performs before it stops making progress.
  One invocation runs at a time. A code that reaches further into the function (the
  \<^verbatim>\<open>eval\<close> is a direct one, so its local variables are in scope) is not
  described by these behaviours.
\<close>

datatype action =
    CallLog "js_value list"
  | CallError "js_value list"
  | AssignLog fn
  | AssignError fn

datatype completion = Completes | Throws js_value | Hangs

record behaviour =
  effects :: "action list"
  ending :: completion

text \<open>
  Calling a function value during invocation \<open>k\<close>. The arrow functions of lines 59 and
  60 push \<^verbatim>\<open>args.join(' ')\<close>; a host function and the arrow functions of
  another invocation leave the two arrays of this one alone.
\<close>

definition call_fn :: "nat \<Rightarrow> fn \<Rightarrow> js_value list \<Rightarrow> capture \<Rightarrow> capture" where
  "call_fn k f args fr =
     (case f of
        Host h \<Rightarrow> fr
      | Capture j ch \<Rightarrow>
          if j \<noteq> k then fr
          else (case ch of
                  Out \<Rightarrow> fr\<lparr>output_buf := output_buf fr @ [array_join '' '' args]\<rparr>
                | Err \<Rightarrow> fr\<lparr>errorOutput := errorOutput fr @ [Prim (array_join '' '' args)]\<rparr>))"

fun perform :: "nat \<Rightarrow> action \<Rightarrow> host \<times> capture \<Rightarrow> host \<times> capture" where
  "perform k (CallLog args) (h, fr) = (h, call_fn k (console_log h) args fr)"
| "perform k (CallError args) (h, fr) = (h, call_fn k (console_error h) args fr)"
| "perform k (AssignLog f) (h, fr) = (h\<lparr>console_log := f\<rparr>, fr)"
| "perform k (AssignError f) (h, fr) = (h\<lparr>console_error := f\<rparr>, fr)"

fun run_effects :: "nat \<Rightarrow> action list \<Rightarrow> host \<times> capture \<Rightarrow> host \<times> capture" where
  "run_effects k [] s = s"
| "run_effects k (a # as) s = run_effects k as (perform k a s)"

section \<open>The executor: evalAndCaptureOutput\<close>

record exec_result =
  stdout :: string
  stderr :: string

text \<open>
  How a call of an async function ends: it returns a value, it rejects with a thrown
  value, or it stays pending for ever.
\<close>

datatype 'a outcome = Returns 'a | Rejects js_value | Pending

text \<open>
  Lines 54 to 60: the old functions are saved, the two arrays are empty, and the console
  is redirected to two new arrow functions.
\<close>

definition redirect :: "host \<Rightarrow> host \<times> capture" where
  "redirect h =
     (h\<lparr>console_log := Capture (invocations h) Out,
        console_error := Capture (invocations h) Err,
        invocations := Suc (invocations h)\<rparr>,
      \<lparr>oldLog = console_log h, oldError = console_error h,
        output_buf = [], errorOutput = []\<rparr>)"

text \<open>The condition of the safety check (lines 64 to 67).\<close>

definition dangerous :: "string \<Rightarrow> bool" where
  "dangerous code =
     (includes_str code ''process.exit'' \<or>
      includes_str code ''require('' \<or>
      includes_str code ''import '' \<or>
      includes_str code ''eval('')"

text \<open>The body of the \<^verbatim>\<open>try\<close> block (lines 63 to 71).\<close>

definition try_block ::
  "(string \<Rightarrow> behaviour) \<Rightarrow> nat \<Rightarrow> string \<Rightarrow> host \<times> capture \<Rightarrow> completion \<times> host \<times> capture" where
  "try_block ev k code s =
     (if dangerous code
      then (Throws (ErrorObj ''Error'' ''Potentially dangerous code detected''), s)
      else (ending (ev code), run_effects k (effects (ev code)) s))"

text \<open>Lines 76 to 82: the console is put back, then the two arrays are joined.\<close>

definition restore_and_return :: "host \<Rightarrow> capture \<Rightarrow> exec_result outcome \<times> host" where
  "restore_and_return h fr =
     (Returns \<lparr>stdout = join newline (output_buf fr),
               stderr = array_join newline (errorOutput fr)\<rparr>,
      h\<lparr>console_log := oldLog fr, console_error := oldError fr\<rparr>)"

text \<open>
  The whole function. The \<^verbatim>\<open>catch\<close> block (line 73) reads
  \<^verbatim>\<open>error.message\<close>; when that read throws, the function rejects from inside
  the \<^verbatim>\<open>catch\<close> block and lines 76 to 82 do not run. When the message has
  no string conversion, it is pushed and the console is put back (lines 76 and 77), and
  then \<^verbatim>\<open>errorOutput.join\<close> on line 81 throws, so the function rejects
  there. When the evaluation never ends, nothing after line 71 runs.
\<close>

definition evalAndCaptureOutput ::
  "(string \<Rightarrow> behaviour) \<Rightarrow> host \<Rightarrow> string \<Rightarrow> exec_result outcome \<times> host" where
  "evalAndCaptureOutput ev h code =
     (case try_block ev (invocations h) code (redirect h) of
        (Hangs, h2, fr2) \<Rightarrow> (Pending, h2)
      | (Completes, h2, fr2) \<Rightarrow> restore_and_return h2 fr2
      | (Throws e, h2, fr2) \<Rightarrow>
          (case get_message e of
             ReadThrows fault \<Rightarrow> (Rejects fault, h2)
           | Reads m \<Rightarrow> restore_and_return h2 (fr2\<lparr>errorOutput := errorOutput fr2 @ [m]\<rparr>)
           | ReadsUnjoinable fault \<Rightarrow>
               (Rejects fault, h2\<lparr>console_log := oldLog fr2, console_error := oldError fr2\<rparr>)))"

text \<open>
  The writes of a code, in program order: the texts its calls of
  \<^verbatim>\<open>console.log\<close> and of \<^verbatim>\<open>console.error\<close> hand over, each call's
  arguments joined by one space.
\<close>

fun is_write :: "action \<Rightarrow> bool" where
  "is_write (CallLog args) = True"
| "is_write (CallError args) = True"
| "is_write (AssignLog f) = False"
| "is_write (AssignError f) = False"

fun log_writes :: "action list \<Rightarrow> string list" where
  "log_writes [] = []"
| "log_writes (CallLog args # as) = array_join '' '' args # log_writes as"
| "log_writes (a # as) = log_writes as"

fun error_writes :: "action list \<Rightarrow> string list" where
  "error_writes [] = []"
| "error_writes (CallError args # as) = array_join '' '' args # error_writes as"
| "error_writes (a # as) = error_writes as"

section \<open>The tools of the agent\<close>

text \<open>
  \<^verbatim>\<open>String.prototype.toLowerCase\<close> on the letters A to Z; every other character
  is carried unchanged.
\<close>

definition toLowerCase_char :: "char \<Rightarrow> char" where
  "toLowerCase_char c =
     (if 65 \<le> (of_char c :: nat) \<and> (of_char c :: nat) \<le> 90
      then char_of ((of_char c :: nat) + 32) else c)"

definition toLowerCase :: "string \<Rightarrow> string" where
  "toLowerCase s = map toLowerCase_char s"

text \<open>The handler of the weather tool.\<close>

definition weatherTool :: "string \<Rightarrow> string" where
  "weatherTool query =
     (if includes_str (toLowerCase query) ''san francisco''
      then ''It's 60 degrees and foggy.''
      else ''It's 90 degrees and sunny.'')"

text \<open>
  Case-insensitivity, said without any lowering: two characters are the same letter when
  they are equal or are the capital and the small form of one letter of the alphabet;
  two texts are the same up to case when they have the same length and agree letter by
  letter; a text contains a pattern case-insensitively when one of its substrings is the
  pattern up to case.
\<close>

definition letter_pairs :: "(char \<times> char) list" where
  "letter_pairs = zip ''ABCDEFGHIJKLMNOPQRSTUVWXYZ'' ''abcdefghijklmnopqrstuvwxyz''"

definition same_letter :: "char \<Rightarrow> char \<Rightarrow> bool" where
  "same_letter a b = (a = b \<or> (a, b) \<in> set letter_pairs \<or> (b, a) \<in> set letter_pairs)"

definition same_ignoring_case :: "string \<Rightarrow> string \<Rightarrow> bool" where
  "same_ignoring_case a b = list_all2 same_letter a b"

definition contains_ignoring_case :: "string \<Rightarrow> string \<Rightarrow> bool" where
  "contains_ignoring_case s pat =
     (\<exists>p mid q. s = p @ mid @ q \<and> same_ignoring_case mid pat)"

text \<open>The decimal text of a number, as a template literal prints a status code.\<close>

fun show_nat :: "nat \<Rightarrow> string" where
  "show_nat n =
     (if n < 10 then [''0123456789'' ! n]
      else show_nat (n div 10) @ [''0123456789'' ! (n mod 10)])"

text \<open>The string conversion a template literal applies to a value.\<close>

fun template_string :: "js_value \<Rightarrow> string" where
  "template_string Undefined = ''undefined''"
| "template_string Null = ''null''"
| "template_string (Prim s) = s"
| "template_string (ErrorObj name msg) = error_toString name msg"
| "template_string (GetterThrows t) = ''[object Object]''"
| "template_string (HasMessage m) = ''[object Object]''"
| "template_string (HasUnjoinableMessage t) = ''[object Object]''"

text \<open>
  What \<^verbatim>\<open>fetch\<close> and \<^verbatim>\<open>response.json()\<close> can do to the code-execution
  tool: the request fails with an error (the executor cannot be reached), a response
  arrives with a status and a body that parses as JSON or does not, or nothing ever
  arrives.
\<close>

datatype 'j parsed = NotJson string | Json 'j

datatype 'j fetch_outcome = FetchFails string string | Responds nat "'j parsed" | NoResponse

text \<open>
  The tool returns either the parsed body as it came, or the object it builds in its
  \<^verbatim>\<open>catch\<close> block.
\<close>

datatype 'j tool_value = Forwarded 'j | Built exec_result

text \<open>\<^verbatim>\<open>process.env.EXECUTOR_URL || 'http://localhost:3000'\<close>.\<close>

definition executor_url :: "string option \<Rightarrow> string" where
  "executor_url env =
     (case env of
        None \<Rightarrow> ''http://localhost:3000''
      | Some u \<Rightarrow> if u = [] then ''http://localhost:3000'' else u)"

text \<open>\<^verbatim>\<open>response.ok\<close>: the status is in the range 200 to 299.\<close>

definition response_ok :: "nat \<Rightarrow> bool" where
  "response_ok st = (200 \<le> st \<and> st \<le> 299)"

text \<open>
  The \<^verbatim>\<open>try\<close> block of the tool: \<open>None\<close> when the request never settles,
  \<open>Inl\<close> the value thrown, \<open>Inr\<close> the value returned.
\<close>

definition jsExecutor_try :: "'j fetch_outcome \<Rightarrow> (js_value + 'j) option" where
  "jsExecutor_try r =
     (case r of
        NoResponse \<Rightarrow> None
      | FetchFails name msg \<Rightarrow> Some (Inl (ErrorObj name msg))
      | Responds st body \<Rightarrow>
          if \<not> response_ok st
          then Some (Inl (ErrorObj ''Error'' (''HTTP error! status: '' @ show_nat st)))
          else (case body of
                  NotJson msg \<Rightarrow> Some (Inl (ErrorObj ''SyntaxError'' msg))
                | Json j \<Rightarrow> Some (Inr j)))"

text \<open>The handler of the code-execution tool, with its \<^verbatim>\<open>catch\<close> block.\<close>

definition jsExecutor ::
  "(string \<Rightarrow> string \<Rightarrow> 'j fetch_outcome) \<Rightarrow> string option \<Rightarrow> string \<Rightarrow> 'j tool_value outcome" where
  "jsExecutor fetch env code =
     (case jsExecutor_try (fetch (executor_url env) code) of
        None \<Rightarrow> Pending
      | Some (Inr j) \<Rightarrow> Returns (Forwarded j)
      | Some (Inl e) \<Rightarrow>
          (case get_message e of
             ReadThrows fault \<Rightarrow> Rejects fault
           | Reads m \<Rightarrow>
               Returns (Built \<lparr>stdout = [],
                               stderr = ''Error executing code: '' @ template_string m\<rparr>)
           | ReadsUnjoinable fault \<Rightarrow> Rejects fault))"

section \<open>The chat request\<close>

text \<open>
  The fields of a request body are JSON values; \<open>JComposite\<close> stands for an object or
  an array. A field that is absent reads as \<^verbatim>\<open>undefined\<close>, here \<open>None\<close>.
\<close>

datatype json = JNull | JBool bool | JNum int | JStr string | JComposite

fun truthy :: "json option \<Rightarrow> bool" where
  "truthy None = False"
| "truthy (Some JNull) = False"
| "truthy (Some (JBool b)) = b"
| "truthy (Some (JNum n)) = (n \<noteq> 0)"
| "truthy (Some (JStr s)) = (s \<noteq> [])"
| "truthy (Some JComposite) = True"

text \<open>\<^verbatim>\<open>v || d\<close> with a default that is a JSON value.\<close>

definition or_default :: "json option \<Rightarrow> json \<Rightarrow> json" where
  "or_default v d = (case v of None \<Rightarrow> d | Some x \<Rightarrow> if truthy (Some x) then x else d)"

record request_body =
  prompt :: "json option"
  thread_id :: "json option"

record message =
  role :: string
  content :: "json option"

datatype reply = Content json | ErrorText string

record response =
  status :: nat
  payload :: reply

text \<open>
  \<^verbatim>\<open>agent.invoke\<close> belongs to the agent library. It is a parameter here: from
  the library's store of conversations, the thread identifier of the configuration and
  the input messages, it gives how the call ends (with the messages of the result) and
  the store afterwards.
\<close>

type_synonym 'st agent = "'st \<Rightarrow> json \<Rightarrow> message list \<Rightarrow> message list outcome \<times> 'st"

text \<open>Line 31: the thread identifier handed to the agent.\<close>

definition configurable :: "request_body \<Rightarrow> json" where
  "configurable b = or_default (thread_id b) (JStr ''default'')"

text \<open>\<^verbatim>\<open>result.messages.at(-1)?.content\<close>.\<close>

definition last_content :: "message list \<Rightarrow> json option" where
  "last_content ms = (case ms of [] \<Rightarrow> None | m # ms' \<Rightarrow> content (last (m # ms')))"

text \<open>
  Lines 34 to 38: the answer made of the agent's result, or the 500 of the
  \<^verbatim>\<open>catch\<close> block; no answer is sent while the agent's call is pending.
\<close>

definition respond :: "message list outcome \<times> 'st \<Rightarrow> response option \<times> 'st" where
  "respond r =
     (case r of
        (Returns ms, st) \<Rightarrow>
          (Some \<lparr>status = 200,
                 payload = Content (or_default (last_content ms) (JStr ''No response generated''))\<rparr>,
           st)
      | (Rejects e, st) \<Rightarrow>
          (Some \<lparr>status = 500, payload = ErrorText ''Internal server error''\<rparr>, st)
      | (Pending, st) \<Rightarrow> (None, st))"

text \<open>
  The handler of \<^verbatim>\<open>POST /generate\<close>. A request without a body makes the
  destructuring of line 16 throw, which the \<^verbatim>\<open>catch\<close> block answers.
\<close>

definition generate :: "'st agent \<Rightarrow> 'st \<Rightarrow> request_body option \<Rightarrow> response option \<times> 'st" where
  "generate agent st req =
     (case req of
        None \<Rightarrow> (Some \<lparr>status = 500, payload = ErrorText ''Internal server error''\<rparr>, st)
      | Some b \<Rightarrow>
          if \<not> truthy (prompt b)
          then (Some \<lparr>status = 400, payload = ErrorText ''Prompt is required''\<rparr>, st)
          else respond (agent st (configurable b) [\<lparr>role = ''user'', content = prompt b\<rparr>]))"

text \<open>
  A small agent for examples: it keeps one history per thread identifier, appends the
  input and its answer to it, and answers with the number of messages it has read.
\<close>

definition counting_agent :: "(json \<Rightarrow> message list) agent" where
  "counting_agent st tid input =
     (let history = st tid @ input;
          answer = \<lparr>role = ''assistant'', content = Some (JNum (int (length history)))\<rparr>
      in (Returns (history @ [answer]), st(tid := history @ [answer])))"

section \<open>Properties of the string operations\<close>

lemma startsWith_iff: "startsWith s pat \<longleftrightarrow> (\<exists>q. s = pat @ q)"
  by (induction s pat rule: startsWith.induct) auto

lemma includes_str_iff: "includes_str s pat \<longleftrightarrow> (\<exists>p q. s = p @ pat @ q)"
proof (induction s)
  case Nil
  then show ?case by auto
next
  case (Cons c cs)
  show ?case
  proof
    assume "includes_str (c # cs) pat"
    then consider "startsWith (c # cs) pat" | "includes_str cs pat" by auto
    then show "\<exists>p q. c # cs = p @ pat @ q"
    proof cases
      case 1
      then obtain q where "c # cs = pat @ q" using startsWith_iff by blast
      then have "c # cs = [] @ pat @ q" by simp
      then show ?thesis by blast
    next
      case 2
      then obtain p q where "cs = p @ pat @ q" using Cons.IH by blast
      then have "c # cs = (c # p) @ pat @ q" by simp
      then show ?thesis by blast
    qed
  next
    assume "\<exists>p q. c # cs = p @ pat @ q"
    then obtain p q where pq: "c # cs = p @ pat @ q" by blast
    show "includes_str (c # cs) pat"
    proof (cases p)
      case Nil
      with pq have "startsWith (c # cs) pat" using startsWith_iff by auto
      then show ?thesis by simp
    next
      case (Cons a p')
      with pq have "cs = p' @ pat @ q" by simp
      then have "includes_str cs pat" using Cons.IH by blast
      then show ?thesis by simp
    qed
  qed
qed

section \<open>Properties of the executor\<close>

text \<open>The evaluated code cannot reach the saved functions or the invocation count.\<close>

lemma perform_keeps:
  "oldLog (snd (perform k a s)) = oldLog (snd s) \<and>
   oldError (snd (perform k a s)) = oldError (snd s) \<and>
   invocations (fst (perform k a s)) = invocations (fst s)"
  by (cases a; cases s) (auto simp: call_fn_def split: fn.splits channel.splits)

lemma run_effects_keeps:
  "oldLog (snd (run_effects k as s)) = oldLog (snd s) \<and>
   oldError (snd (run_effects k as s)) = oldError (snd s) \<and>
   invocations (fst (run_effects k as s)) = invocations (fst s)"
  by (induction as arbitrary: s) (simp_all add: perform_keeps)

lemma run_effects_writes:
  assumes "list_all is_write as" and "console_log h = Capture k Out"
    and "console_error h = Capture k Err"
  shows "run_effects k as (h, fr) =
           (h, fr\<lparr>output_buf := output_buf fr @ log_writes as,
                   errorOutput := errorOutput fr @ map Prim (error_writes as)\<rparr>)"
  using assms
proof (induction as arbitrary: fr)
  case Nil
  then show ?case by simp
next
  case (Cons a as)
  then show ?case by (cases a) (simp_all add: call_fn_def)
qed

lemma array_join_Prim: "array_join sep (map Prim xs) = join sep xs"
  by (simp add: array_join_def comp_def)

lemma restored_host:
  "(fst (run_effects (invocations h) as (redirect h)))
     \<lparr>console_log := console_log h, console_error := console_error h\<rparr> =
   h\<lparr>invocations := Suc (invocations h)\<rparr>"
proof -
  obtain a b n where h2: "fst (run_effects (invocations h) as (redirect h)) =
      \<lparr>console_log = a, console_error = b, invocations = n\<rparr>"
    by (cases "fst (run_effects (invocations h) as (redirect h))") auto
  have "invocations (fst (run_effects (invocations h) as (redirect h))) =
        invocations (fst (redirect h))"
    by (simp add: run_effects_keeps)
  then have "n = Suc (invocations h)" using h2 by (simp add: redirect_def)
  then show ?thesis using h2 by simp
qed

lemma old_after_run:
  "oldLog (snd (run_effects (invocations h) as (redirect h))) = console_log h \<and>
   oldError (snd (run_effects (invocations h) as (redirect h))) = console_error h"
  by (simp add: run_effects_keeps redirect_def)

lemma restore_after_run:
  assumes "oldLog fr = console_log h" and "oldError fr = console_error h"
  shows "restore_and_return (fst (run_effects (invocations h) as (redirect h))) fr =
           (Returns \<lparr>stdout = join newline (output_buf fr),
                     stderr = array_join newline (errorOutput fr)\<rparr>,
            h\<lparr>invocations := Suc (invocations h)\<rparr>)"
  using assms by (simp add: restore_and_return_def restored_host)

lemma eval_dangerous:
  assumes "dangerous code"
  shows "evalAndCaptureOutput ev h code =
           (Returns \<lparr>stdout = [], stderr = ''Potentially dangerous code detected''\<rparr>,
            h\<lparr>invocations := Suc (invocations h)\<rparr>)"
  using assms
  by (simp add: evalAndCaptureOutput_def try_block_def redirect_def
      restore_and_return_def array_join_def)

lemma eval_safe:
  assumes "\<not> dangerous code"
  shows "evalAndCaptureOutput ev h code =
     (case ending (ev code) of
        Hangs \<Rightarrow> (Pending, fst (run_effects (invocations h) (effects (ev code)) (redirect h)))
      | Completes \<Rightarrow>
          restore_and_return (fst (run_effects (invocations h) (effects (ev code)) (redirect h)))
            (snd (run_effects (invocations h) (effects (ev code)) (redirect h)))
      | Throws e \<Rightarrow>
          (case get_message e of
             ReadThrows fault \<Rightarrow>
               (Rejects fault, fst (run_effects (invocations h) (effects (ev code)) (redirect h)))
           | Reads m \<Rightarrow>
               restore_and_return (fst (run_effects (invocations h) (effects (ev code)) (redirect h)))
                 ((snd (run_effects (invocations h) (effects (ev code)) (redirect h)))
                    \<lparr>errorOutput :=
                       errorOutput (snd (run_effects (invocations h) (effects (ev code)) (redirect h))) @ [m]\<rparr>)
           | ReadsUnjoinable fault \<Rightarrow>
               (Rejects fault, h\<lparr>invocations := Suc (invocations h)\<rparr>)))"
proof -
  obtain h2 fr2 where run: "run_effects (invocations h) (effects (ev code)) (redirect h) = (h2, fr2)"
    by (cases "run_effects (invocations h) (effects (ev code)) (redirect h)") auto
  have "h2\<lparr>console_log := oldLog fr2, console_error := oldError fr2\<rparr> =
        h\<lparr>invocations := Suc (invocations h)\<rparr>"
    using restored_host [of h "effects (ev code)"] old_after_run [of h "effects (ev code)"] run
    by simp
  with assms run show ?thesis
    by (simp add: evalAndCaptureOutput_def try_block_def
        split: completion.splits message_read.splits)
qed

lemma run_writes_host:
  assumes "list_all is_write as"
  shows "fst (run_effects (invocations h) as (redirect h)) = fst (redirect h)"
  using run_effects_writes [OF assms, of "fst (redirect h)" "invocations h" "snd (redirect h)"]
  by (simp add: redirect_def)

lemma run_writes_capture:
  assumes "list_all is_write as"
  shows "snd (run_effects (invocations h) as (redirect h)) =
           \<lparr>oldLog = console_log h, oldError = console_error h,
            output_buf = log_writes as, errorOutput = map Prim (error_writes as)\<rparr>"
  using run_effects_writes [OF assms, of "fst (redirect h)" "invocations h" "snd (redirect h)"]
  by (simp add: redirect_def)

section \<open>The safety check\<close>

text \<open>
  C1. A code string that contains \<^verbatim>\<open>process.exit\<close>, \<^verbatim>\<open>require(\<close>,
  \<^verbatim>\<open>import \<close> or \<^verbatim>\<open>eval(\<close> is answered with an empty stdout and the
  stderr \<^verbatim>\<open>Potentially dangerous code detected\<close>, and the console is put back.
  The code is not evaluated: the answer and the console afterwards are the same whatever
  the engine would have made of the code.
\<close>

theorem denylisted_code_is_rejected_unevaluated:
  assumes "(\<exists>p q. code = p @ ''process.exit'' @ q) \<or> (\<exists>p q. code = p @ ''require('' @ q) \<or>
           (\<exists>p q. code = p @ ''import '' @ q) \<or> (\<exists>p q. code = p @ ''eval('' @ q)"
  shows "evalAndCaptureOutput ev h code =
           (Returns \<lparr>stdout = [], stderr = ''Potentially dangerous code detected''\<rparr>,
            h\<lparr>invocations := Suc (invocations h)\<rparr>) \<and>
         evalAndCaptureOutput ev' h code = evalAndCaptureOutput ev h code"
proof -
  from assms have "dangerous code"
    unfolding dangerous_def includes_str_iff by blast
  then show ?thesis by (simp add: eval_dangerous)
qed

theorem denylisted_code_is_rejected_unevaluated_witness:
  "evalAndCaptureOutput
     (\<lambda>c. \<lparr>effects = [CallLog [Prim ''pwned'']], ending = Completes\<rparr>)
     \<lparr>console_log = Host ''log'', console_error = Host ''error'', invocations = 0\<rparr>
     ''console.log(eval(\"1+1\"))'' =
   (Returns \<lparr>stdout = [], stderr = ''Potentially dangerous code detected''\<rparr>,
    \<lparr>console_log = Host ''log'', console_error = Host ''error'', invocations = Suc 0\<rparr>)"
proof -
  have "''console.log(eval(\"1+1\"))'' = ''console.log('' @ ''eval('' @ ''\"1+1\"))''"
    by simp
  then have "\<exists>p q. ''console.log(eval(\"1+1\"))'' = p @ ''eval('' @ q" by blast
  then show ?thesis
    using denylisted_code_is_rejected_unevaluated
      [of "''console.log(eval(\"1+1\"))''"
          "\<lambda>c. \<lparr>effects = [CallLog [Prim ''pwned'']], ending = Completes\<rparr>"
          "\<lparr>console_log = Host ''log'', console_error = Host ''error'', invocations = 0\<rparr>"]
    by simp
qed


section \<open>Results and faults of the executor\<close>



text \<open>
  Outside that hypothesis the function rejects. A thrown object whose
  \<^verbatim>\<open>message\<close> getter throws leaves the function from inside the
  \<^verbatim>\<open>catch\<close> block, as \<^verbatim>\<open>null\<close> does, with the console still
  redirected; a thrown object whose message is a Symbol leaves it on line 81, after the
  console has been put back.
\<close>

lemma unreadable_message_rejects:
  "evalAndCaptureOutput
     (\<lambda>c. \<lparr>effects = [], ending = Throws (GetterThrows (Prim ''0''))\<rparr>)
     \<lparr>console_log = Host ''log'', console_error = Host ''error'', invocations = 0\<rparr>
     ''throw {get message() { throw 0 }}'' =
   (Rejects (Prim ''0''),
    \<lparr>console_log = Capture 0 Out, console_error = Capture 0 Err, invocations = Suc 0\<rparr>)"
  by (simp add: evalAndCaptureOutput_def try_block_def dangerous_def redirect_def)

lemma unjoinable_message_rejects:
  "evalAndCaptureOutput
     (\<lambda>c. \<lparr>effects = [],
            ending = Throws (HasUnjoinableMessage
              (ErrorObj ''TypeError'' ''Cannot convert a Symbol value to a string''))\<rparr>)
     \<lparr>console_log = Host ''log'', console_error = Host ''error'', invocations = 0\<rparr>
     ''throw {message: Symbol()}'' =
   (Rejects (ErrorObj ''TypeError'' ''Cannot convert a Symbol value to a string''),
    \<lparr>console_log = Host ''log'', console_error = Host ''error'', invocations = Suc 0\<rparr>)"
  by (simp add: evalAndCaptureOutput_def try_block_def dangerous_def redirect_def)


section \<open>No time budget\<close>

text \<open>
  C3. The function takes no time budget and has no timeout. What holds instead: for a
  code that passes the safety check and whose evaluation never ends, the call never
  returns; it stays pending in the state the evaluation left, and when the code only
  wrote to the console, that state has \<^verbatim>\<open>console.log\<close> and
  \<^verbatim>\<open>console.error\<close> still redirected to this invocation's arrays.
\<close>

theorem unended_evaluation_never_returns:
  assumes "\<not> dangerous code" and "ending (ev code) = Hangs"
  shows "evalAndCaptureOutput ev h code =
           (Pending, fst (run_effects (invocations h) (effects (ev code)) (redirect h))) \<and>
         (list_all is_write (effects (ev code)) \<longrightarrow>
            snd (evalAndCaptureOutput ev h code) =
              h\<lparr>console_log := Capture (invocations h) Out,
                 console_error := Capture (invocations h) Err,
                 invocations := Suc (invocations h)\<rparr>)"
proof -
  have pending: "evalAndCaptureOutput ev h code =
      (Pending, fst (run_effects (invocations h) (effects (ev code)) (redirect h)))"
    using assms by (simp add: eval_safe)
  moreover have "snd (evalAndCaptureOutput ev h code) = fst (redirect h)"
    if "list_all is_write (effects (ev code))"
    using that pending by (simp add: run_writes_host)
  ultimately show ?thesis by (simp add: redirect_def)
qed

theorem unended_evaluation_never_returns_witness:
  "evalAndCaptureOutput
     (\<lambda>c. \<lparr>effects = [CallLog [Prim ''tick'']], ending = Hangs\<rparr>)
     \<lparr>console_log = Host ''log'', console_error = Host ''error'', invocations = 3\<rparr>
     ''console.log(\"tick\"); for (;;) {}'' =
   (Pending, \<lparr>console_log = Capture 3 Out, console_error = Capture 3 Err, invocations = Suc 3\<rparr>)"
  using unended_evaluation_never_returns
    [of "''console.log(\"tick\"); for (;;) {}''"
        "\<lambda>c. \<lparr>effects = [CallLog [Prim ''tick'']], ending = Hangs\<rparr>"
        "\<lparr>console_log = Host ''log'', console_error = Host ''error'', invocations = 3\<rparr>"]
  by (simp add: dangerous_def redirect_def call_fn_def prod_eq_iff)

text \<open>An endless loop after one write: no result, with or without a timeout status.\<close>

theorem endless_loop_gets_no_timeout_result:
  "evalAndCaptureOutput
     (\<lambda>c. \<lparr>effects = [CallLog [Prim ''started'']], ending = Hangs\<rparr>)
     \<lparr>console_log = Host ''log'', console_error = Host ''error'', invocations = 0\<rparr>
     ''console.log(\"started\"); while (true) {}'' =
   (Pending, \<lparr>console_log = Capture 0 Out, console_error = Capture 0 Err, invocations = Suc 0\<rparr>)"
  by (simp add: evalAndCaptureOutput_def try_block_def dangerous_def redirect_def call_fn_def)

section \<open>Captured output\<close>

text \<open>
  C4. The claim as stated fails for two writes: stdout is not their concatenation. What
  holds: for a code that passes the safety check, completes, and only calls
  \<^verbatim>\<open>console.log\<close> and \<^verbatim>\<open>console.error\<close>, the function returns
  with stdout the \<^verbatim>\<open>console.log\<close> writes in program order joined by a newline
  between consecutive writes (each write being the call's arguments joined by one
  space), with stderr the \<^verbatim>\<open>console.error\<close> writes joined the same way, and
  with the console put back. The result has no status field.
\<close>

theorem completed_code_stdout_joins_writes_by_newline:
  assumes "\<not> dangerous code" and "ending (ev code) = Completes"
    and "list_all is_write (effects (ev code))"
  shows "evalAndCaptureOutput ev h code =
           (Returns \<lparr>stdout = join newline (log_writes (effects (ev code))),
                     stderr = join newline (error_writes (effects (ev code)))\<rparr>,
            h\<lparr>invocations := Suc (invocations h)\<rparr>)"
proof -
  have "run_effects (invocations h) (effects (ev code)) (redirect h) =
      (fst (redirect h),
       (snd (redirect h))\<lparr>output_buf := output_buf (snd (redirect h)) @ log_writes (effects (ev code)),
                           errorOutput := errorOutput (snd (redirect h)) @ map Prim (error_writes (effects (ev code)))\<rparr>)"
    using run_effects_writes [OF assms(3), of "fst (redirect h)" "invocations h" "snd (redirect h)"]
    by (simp add: redirect_def)
  then have run: "snd (run_effects (invocations h) (effects (ev code)) (redirect h)) =
       \<lparr>oldLog = console_log h, oldError = console_error h,
        output_buf = log_writes (effects (ev code)),
        errorOutput = map Prim (error_writes (effects (ev code)))\<rparr>"
    by (simp add: redirect_def)
  show ?thesis
    using assms(1,2)
    by (simp add: eval_safe restore_after_run old_after_run) (simp add: run array_join_Prim)
qed

theorem completed_code_stdout_joins_writes_by_newline_witness:
  "evalAndCaptureOutput
     (\<lambda>c. \<lparr>effects = [CallLog [Prim ''15 * 37 ='', Prim ''555''], CallError [Prim ''warn''],
                        CallLog [Prim ''done'']],
            ending = Completes\<rparr>)
     \<lparr>console_log = Host ''log'', console_error = Host ''error'', invocations = 0\<rparr>
     ''console.log(\"15 * 37 =\", 15 * 37); console.error(\"warn\"); console.log(\"done\")'' =
   (Returns \<lparr>stdout = ''15 * 37 = 555'' @ newline @ ''done'', stderr = ''warn''\<rparr>,
    \<lparr>console_log = Host ''log'', console_error = Host ''error'', invocations = Suc 0\<rparr>)"
  using completed_code_stdout_joins_writes_by_newline
    [of "''console.log(\"15 * 37 =\", 15 * 37); console.error(\"warn\"); console.log(\"done\")''"
        "\<lambda>c. \<lparr>effects = [CallLog [Prim ''15 * 37 ='', Prim ''555''], CallError [Prim ''warn''],
                        CallLog [Prim ''done'']],
            ending = Completes\<rparr>"
        "\<lparr>console_log = Host ''log'', console_error = Host ''error'', invocations = 0\<rparr>"]
  by (simp add: dangerous_def array_join_def)

text \<open>
  Two writes \<^verbatim>\<open>a\<close> and \<^verbatim>\<open>b\<close>: stdout is \<^verbatim>\<open>a\<close>, a
  newline, \<^verbatim>\<open>b\<close>, which is neither the two texts concatenated nor the two
  lines the native console would have printed.
\<close>

theorem two_writes_are_not_concatenated:
  "evalAndCaptureOutput
     (\<lambda>c. \<lparr>effects = [CallLog [Prim ''a''], CallLog [Prim ''b'']], ending = Completes\<rparr>)
     \<lparr>console_log = Host ''log'', console_error = Host ''error'', invocations = 0\<rparr>
     ''console.log(\"a\"); console.log(\"b\")'' =
   (Returns \<lparr>stdout = ''a'' @ newline @ ''b'', stderr = []\<rparr>,
    \<lparr>console_log = Host ''log'', console_error = Host ''error'', invocations = Suc 0\<rparr>) \<and>
   ''a'' @ newline @ ''b'' \<noteq> concat [''a'', ''b''] \<and>
   ''a'' @ newline @ ''b'' \<noteq> concat [''a'' @ newline, ''b'' @ newline]"
  by (simp add: evalAndCaptureOutput_def try_block_def dangerous_def redirect_def
      call_fn_def restore_and_return_def array_join_def newline_def)

section \<open>Output captured before a throw\<close>

text \<open>
  When the \<^verbatim>\<open>message\<close> property of the thrown value can be read, the output
  written before the throw is returned, and the message follows the error writes.
\<close>

lemma thrown_value_keeps_partial_output:
  assumes "\<not> dangerous code" and "ending (ev code) = Throws e" and "get_message e = Reads m"
    and "list_all is_write (effects (ev code))"
  shows "evalAndCaptureOutput ev h code =
           (Returns \<lparr>stdout = join newline (log_writes (effects (ev code))),
                     stderr = join newline (error_writes (effects (ev code)) @ [join_element m])\<rparr>,
            h\<lparr>invocations := Suc (invocations h)\<rparr>)"
proof -
  have "array_join newline (map Prim (error_writes (effects (ev code))) @ [m]) =
        join newline (error_writes (effects (ev code)) @ [join_element m])"
    by (simp add: array_join_def comp_def)
  then show ?thesis
    using assms(1,2,3)
    by (simp add: eval_safe restore_after_run old_after_run run_writes_capture [OF assms(4)])
qed

text \<open>
  C5. The failing input: a code that writes \<^verbatim>\<open>partial\<close> and then throws
  \<^verbatim>\<open>null\<close>. Reading \<^verbatim>\<open>error.message\<close> in the
  \<^verbatim>\<open>catch\<close> block throws a TypeError, the function rejects, and no result
  carries the captured output.
\<close>

theorem partial_output_lost_when_null_is_thrown:
  "evalAndCaptureOutput
     (\<lambda>c. \<lparr>effects = [CallLog [Prim ''partial'']], ending = Throws Null\<rparr>)
     \<lparr>console_log = Host ''log'', console_error = Host ''error'', invocations = 0\<rparr>
     ''console.log(\"partial\"); throw null'' =
   (Rejects (ErrorObj ''TypeError'' ''Cannot read properties of null (reading 'message')''),
    \<lparr>console_log = Capture 0 Out, console_error = Capture 0 Err, invocations = Suc 0\<rparr>)"
  by (simp add: evalAndCaptureOutput_def try_block_def dangerous_def redirect_def call_fn_def)

section \<open>Putting the console back\<close>

text \<open>Whenever the function returns a result, the console is as it was before the call.\<close>

lemma returns_restore:
  assumes "fst (evalAndCaptureOutput ev h code) = Returns r"
  shows "snd (evalAndCaptureOutput ev h code) = h\<lparr>invocations := Suc (invocations h)\<rparr>"
proof (cases "dangerous code")
  case True
  then show ?thesis by (simp add: eval_dangerous)
next
  case False
  show ?thesis
  proof (cases "ending (ev code)")
    case Completes
    with False show ?thesis
      by (simp add: eval_safe restore_after_run old_after_run)
  next
    case (Throws e)
    with False assms show ?thesis
      by (cases "get_message e") (simp_all add: eval_safe restore_after_run old_after_run)
  next
    case Hangs
    with False assms show ?thesis by (simp add: eval_safe)
  qed
qed

text \<open>
  C6. The failing input: a code that throws \<^verbatim>\<open>undefined\<close>. The function
  rejects from inside its \<^verbatim>\<open>catch\<close> block, before the two assignments
  that put the console back; \<^verbatim>\<open>console.log\<close> and
  \<^verbatim>\<open>console.error\<close> stay the arrow functions of that invocation. The next
  invocation saves those as the old functions and puts them back when it returns, so
  the host's own functions are not seen again.
\<close>

theorem console_stays_redirected_when_undefined_is_thrown:
  "snd (evalAndCaptureOutput
         (\<lambda>c. \<lparr>effects = [], ending = Throws Undefined\<rparr>)
         \<lparr>console_log = Host ''log'', console_error = Host ''error'', invocations = 0\<rparr>
         ''throw undefined'') =
     \<lparr>console_log = Capture 0 Out, console_error = Capture 0 Err, invocations = Suc 0\<rparr> \<and>
   evalAndCaptureOutput
     (\<lambda>c. \<lparr>effects = [CallLog [Prim ''1'']], ending = Completes\<rparr>)
     (snd (evalAndCaptureOutput
         (\<lambda>c. \<lparr>effects = [], ending = Throws Undefined\<rparr>)
         \<lparr>console_log = Host ''log'', console_error = Host ''error'', invocations = 0\<rparr>
         ''throw undefined''))
     ''console.log(1)'' =
   (Returns \<lparr>stdout = ''1'', stderr = []\<rparr>,
    \<lparr>console_log = Capture 0 Out, console_error = Capture 0 Err, invocations = Suc (Suc 0)\<rparr>)"
  by (simp add: evalAndCaptureOutput_def try_block_def dangerous_def redirect_def call_fn_def
      restore_and_return_def array_join_def)

section \<open>The code-execution tool\<close>

lemma show_nat_500: "show_nat 500 = ''500''"
  by code_simp

text \<open>
  C8. Whatever the request to the executor does, the tool never rejects: nothing is
  thrown on into the agent's loop. When the request fails (the executor cannot be
  reached), when the response has a status outside 200 to 299, and when the body of an
  OK response is not JSON, the tool returns an object with an empty stdout and a stderr
  that starts with \<^verbatim>\<open>Error executing code: \<close> and goes on with the message of the
  failure.
\<close>

theorem jsExecutor_failure_is_a_result:
  "(\<forall>fault. jsExecutor fetch env code \<noteq> Rejects fault) \<and>
   (\<forall>name msg. fetch (executor_url env) code = FetchFails name msg \<longrightarrow>
      jsExecutor fetch env code =
        Returns (Built \<lparr>stdout = [], stderr = ''Error executing code: '' @ msg\<rparr>)) \<and>
   (\<forall>st body. fetch (executor_url env) code = Responds st body \<and> \<not> response_ok st \<longrightarrow>
      jsExecutor fetch env code =
        Returns (Built \<lparr>stdout = [],
                        stderr = ''Error executing code: HTTP error! status: '' @ show_nat st\<rparr>)) \<and>
   (\<forall>st msg. fetch (executor_url env) code = Responds st (NotJson msg) \<and> response_ok st \<longrightarrow>
      jsExecutor fetch env code =
        Returns (Built \<lparr>stdout = [], stderr = ''Error executing code: '' @ msg\<rparr>))"
  by (auto simp: jsExecutor_def jsExecutor_try_def split: fetch_outcome.splits parsed.splits)

theorem jsExecutor_failure_is_a_result_witness:
  "jsExecutor (\<lambda>url body. FetchFails ''TypeError'' ''fetch failed'') None ''1 + 1'' =
     Returns (Built \<lparr>stdout = [], stderr = ''Error executing code: fetch failed''\<rparr>) \<and>
   jsExecutor (\<lambda>url body. Responds 500 (Json ())) (Some ''http://executor:3000'') ''throw null'' =
     Returns (Built \<lparr>stdout = [], stderr = ''Error executing code: HTTP error! status: 500''\<rparr>) \<and>
   jsExecutor (\<lambda>url body. Responds 200 (NotJson ''Unexpected end of JSON input'')) None ''1'' =
     Returns (Built \<lparr>stdout = [], stderr = ''Error executing code: Unexpected end of JSON input''\<rparr>)"
  using jsExecutor_failure_is_a_result
          [of "\<lambda>url body. FetchFails ''TypeError'' ''fetch failed''" None "''1 + 1''"]
        jsExecutor_failure_is_a_result
          [of "\<lambda>url body. Responds 500 (Json ())" "Some ''http://executor:3000''" "''throw null''"]
        jsExecutor_failure_is_a_result
          [of "\<lambda>url body. Responds 200 (NotJson ''Unexpected end of JSON input'')" None "''1''"]
  by (auto simp: response_ok_def show_nat_500)

section \<open>The thread of a chat request\<close>

text \<open>
  C9. For a request body without a \<^verbatim>\<open>thread_id\<close> field the thread identifier
  handed to the agent is the fixed text \<^verbatim>\<open>default\<close>, and a request with a
  prompt is answered from the agent's call under that identifier. Every such request
  therefore reaches the agent under one and the same identifier: with an agent that
  keeps one history per identifier, the second request reads what the first appended.
\<close>

theorem missing_thread_id_means_default:
  assumes "thread_id b = None"
  shows "configurable b = JStr ''default'' \<and>
         (truthy (prompt b) \<longrightarrow>
            generate agent st (Some b) =
              respond (agent st (JStr ''default'') [\<lparr>role = ''user'', content = prompt b\<rparr>]))"
  using assms by (simp add: configurable_def or_default_def generate_def)

theorem missing_thread_id_means_default_witness:
  "generate counting_agent (\<lambda>t. []) (Some \<lparr>prompt = Some (JStr ''hello''), thread_id = None\<rparr>) =
     respond (counting_agent (\<lambda>t. []) (JStr ''default'')
                [\<lparr>role = ''user'', content = Some (JStr ''hello'')\<rparr>]) \<and>
   fst (generate counting_agent
         (snd (generate counting_agent (\<lambda>t. [])
                 (Some \<lparr>prompt = Some (JStr ''hello''), thread_id = None\<rparr>)))
         (Some \<lparr>prompt = Some (JStr ''again''), thread_id = None\<rparr>)) =
     Some \<lparr>status = 200, payload = Content (JNum 3)\<rparr>"
proof -
  have first: "generate counting_agent (\<lambda>t. [])
                 (Some \<lparr>prompt = Some (JStr ''hello''), thread_id = None\<rparr>) =
               respond (counting_agent (\<lambda>t. []) (JStr ''default'')
                 [\<lparr>role = ''user'', content = Some (JStr ''hello'')\<rparr>])"
    using missing_thread_id_means_default
            [of "\<lparr>prompt = Some (JStr ''hello''), thread_id = None\<rparr>" counting_agent "\<lambda>t. []"]
    by simp
  have second: "generate counting_agent st
                 (Some \<lparr>prompt = Some (JStr ''again''), thread_id = None\<rparr>) =
               respond (counting_agent st (JStr ''default'')
                 [\<lparr>role = ''user'', content = Some (JStr ''again'')\<rparr>])" for st
    using missing_thread_id_means_default
            [of "\<lparr>prompt = Some (JStr ''again''), thread_id = None\<rparr>" counting_agent st]
    by simp
  show ?thesis
    by (simp only: first second)
       (simp add: respond_def counting_agent_def last_content_def or_default_def Let_def)
qed

text \<open>
  The handler hands the agent no bound on its steps, and it has no loop of its own; when
  the agent's call rejects, for whatever reason, the answer is the 500 of the
  \<^verbatim>\<open>catch\<close> block.
\<close>

lemma agent_failure_is_answered_500:
  assumes "truthy (prompt b)" and "fst (agent st (configurable b) [\<lparr>role = ''user'', content = prompt b\<rparr>]) = Rejects e"
  shows "fst (generate agent st (Some b)) =
           Some \<lparr>status = 500, payload = ErrorText ''Internal server error''\<rparr>"
  using assms
  by (cases "agent st (configurable b) [\<lparr>role = ''user'', content = prompt b\<rparr>]")
     (simp add: generate_def respond_def)

section \<open>The weather tool\<close>

text \<open>
  The lowering of the source against the alphabet: it sends each capital to its small
  letter and leaves every other character alone, so that a text lowers to a pattern
  without capitals exactly when it is the pattern up to case.
\<close>

lemma letters_lowered:
  "list_all (\<lambda>(u, l). toLowerCase_char u = l) letter_pairs"
  by code_simp

lemma capitals_listed:
  "map char_of [65..<91::nat] = ''ABCDEFGHIJKLMNOPQRSTUVWXYZ''"
  by code_simp

lemma capital_in_alphabet:
  assumes "65 \<le> (of_char c :: nat)" and "(of_char c :: nat) \<le> 90"
  shows "c \<in> set ''ABCDEFGHIJKLMNOPQRSTUVWXYZ''"
proof -
  from assms have "(of_char c :: nat) \<in> {65..<91}" by simp
  then have "(of_char c :: nat) \<in> set [65..<91]" by (simp only: set_upt)
  then have "char_of (of_char c :: nat) \<in> set (map char_of [65..<91::nat])"
    by (simp only: set_map) (rule imageI)
  then show ?thesis by (simp only: capitals_listed char_of_char)
qed

lemma capitals_are_keys: "map fst letter_pairs = ''ABCDEFGHIJKLMNOPQRSTUVWXYZ''"
  by (simp add: letter_pairs_def)

lemma not_capital_unchanged:
  assumes "c \<notin> set (map fst letter_pairs)"
  shows "toLowerCase_char c = c"
  using assms capital_in_alphabet [of c]
  by (auto simp only: capitals_are_keys toLowerCase_char_def split: if_splits)

lemma capital_lowered:
  assumes "(u, l) \<in> set letter_pairs"
  shows "toLowerCase_char u = l"
  using assms letters_lowered by (auto simp: list_all_iff)

lemma pairs_functional:
  assumes "(u, l) \<in> set letter_pairs" and "(u, l') \<in> set letter_pairs"
  shows "l = l'"
proof -
  have keys: "distinct (map fst letter_pairs)" by (simp add: capitals_are_keys)
  have "map_of letter_pairs u = Some l"
    by (rule map_of_is_SomeI [OF keys assms(1)])
  moreover have "map_of letter_pairs u = Some l'"
    by (rule map_of_is_SomeI [OF keys assms(2)])
  ultimately show ?thesis by simp
qed

lemma lowered_iff_same_letter:
  assumes "b \<notin> set (map fst letter_pairs)"
  shows "toLowerCase_char a = b \<longleftrightarrow> same_letter a b"
proof (cases "a \<in> set (map fst letter_pairs)")
  case True
  then obtain l where al: "(a, l) \<in> set letter_pairs" by auto
  then have low: "toLowerCase_char a = l" by (rule capital_lowered)
  from True assms have "a \<noteq> b" by auto
  moreover from assms have "(b, a) \<notin> set letter_pairs" by force
  ultimately have "same_letter a b \<longleftrightarrow> (a, b) \<in> set letter_pairs"
    by (simp add: same_letter_def)
  also have "\<dots> \<longleftrightarrow> b = l" using al pairs_functional by blast
  finally show ?thesis using low by auto
next
  case False
  then have "toLowerCase_char a = a" by (rule not_capital_unchanged)
  moreover from False have "(a, b) \<notin> set letter_pairs" by force
  moreover from assms have "(b, a) \<notin> set letter_pairs" by force
  ultimately show ?thesis by (auto simp: same_letter_def)
qed

lemma toLowerCase_iff_same_ignoring_case:
  assumes "set pat \<inter> set (map fst letter_pairs) = {}"
  shows "toLowerCase s = pat \<longleftrightarrow> same_ignoring_case s pat"
  using assms
proof (induction s arbitrary: pat)
  case Nil
  then show ?case by (auto simp: toLowerCase_def same_ignoring_case_def)
next
  case (Cons a s)
  show ?case
  proof (cases pat)
    case Nil
    then show ?thesis by (simp add: toLowerCase_def same_ignoring_case_def)
  next
    case (Cons b pat')
    with Cons.prems have b: "b \<notin> set (map fst letter_pairs)"
      and rest: "set pat' \<inter> set (map fst letter_pairs) = {}" by auto
    from Cons.IH [OF rest] have "map toLowerCase_char s = pat' \<longleftrightarrow> list_all2 same_letter s pat'"
      by (simp add: toLowerCase_def same_ignoring_case_def)
    with lowered_iff_same_letter [OF b, of a] Cons show ?thesis
      by (simp add: toLowerCase_def same_ignoring_case_def)
  qed
qed

lemma pattern_has_no_capital:
  "set ''san francisco'' \<inter> set (map fst letter_pairs) = {}"
  by (simp add: capitals_are_keys)

text \<open>The lowered text contains a pattern exactly when some substring lowers to it.\<close>

lemma includes_toLowerCase_iff:
  "includes_str (toLowerCase s) pat \<longleftrightarrow> (\<exists>p mid q. s = p @ mid @ q \<and> toLowerCase mid = pat)"
proof
  assume "includes_str (toLowerCase s) pat"
  then obtain p q where "map toLowerCase_char s = p @ pat @ q"
    unfolding includes_str_iff toLowerCase_def by blast
  then obtain s1 s2 where s: "s = s1 @ s2" and "pat @ q = map toLowerCase_char s2"
    by (auto simp: map_eq_append_conv)
  then obtain mid t where "s2 = mid @ t" and "pat = map toLowerCase_char mid"
    by (auto simp: append_eq_map_conv)
  with s have "s = s1 @ mid @ t \<and> toLowerCase mid = pat"
    by (simp add: toLowerCase_def)
  then show "\<exists>p mid q. s = p @ mid @ q \<and> toLowerCase mid = pat" by blast
next
  assume "\<exists>p mid q. s = p @ mid @ q \<and> toLowerCase mid = pat"
  then obtain p mid q where "s = p @ mid @ q" and "toLowerCase mid = pat" by blast
  then have "toLowerCase s = toLowerCase p @ pat @ toLowerCase q"
    by (auto simp: toLowerCase_def)
  then show "includes_str (toLowerCase s) pat"
    unfolding includes_str_iff by blast
qed

text \<open>
  C10. The weather tool answers \<^verbatim>\<open>It's 60 degrees and foggy.\<close> when the query
  contains \<^verbatim>\<open>san francisco\<close> case-insensitively (some substring of the query
  is that text up to the case of its letters), and
  \<^verbatim>\<open>It's 90 degrees and sunny.\<close> otherwise; the query
  \<^verbatim>\<open>San Francisco\<close> gets the foggy answer.
\<close>

theorem weatherTool_answers:
  "weatherTool query =
     (if contains_ignoring_case query ''san francisco''
      then ''It's 60 degrees and foggy.'' else ''It's 90 degrees and sunny.'') \<and>
   weatherTool ''San Francisco'' = ''It's 60 degrees and foggy.''"
proof -
  have "includes_str (toLowerCase query) ''san francisco'' \<longleftrightarrow>
        contains_ignoring_case query ''san francisco''"
    by (simp only: includes_toLowerCase_iff contains_ignoring_case_def
        toLowerCase_iff_same_ignoring_case [OF pattern_has_no_capital])
  moreover have "weatherTool ''San Francisco'' = ''It's 60 degrees and foggy.''"
    by code_simp
  ultimately show ?thesis by (simp add: weatherTool_def)
qed

text \<open>The relation at work: a query in mixed case, and two texts it tells apart.\<close>

lemma mixed_case_query_contains_pattern:
  "contains_ignoring_case ''Weather in sAn FRANcisco?'' ''san francisco''"
  unfolding contains_ignoring_case_def same_ignoring_case_def
  apply (rule exI [of _ "''Weather in ''"])
  apply (rule exI [of _ "''sAn FRANcisco''"])
  apply (rule exI [of _ "''?''"])
  apply (simp add: same_letter_def letter_pairs_def)
  done

lemma same_letter_examples:
  "same_letter CHR ''s'' CHR ''S'' \<and> \<not> same_letter CHR ''s'' CHR ''t'' \<and>
   \<not> same_ignoring_case ''london'' ''san francisco''"
  by (simp add: same_ignoring_case_def same_letter_def letter_pairs_def)

end
